theory Spec2Isabelle
  imports Complex_Main
begin

section \<open>Background service worker: capture planning and collection\<close>

text \<open>
  The service worker computes how many viewport captures a page needs, scrolls the tab to
  each position, grabs the visible tab under a retry loop, and hands the captures to the
  offscreen document. Page geometry comes from the content script as integers
  (\<open>scrollHeight\<close>, \<open>innerHeight\<close>), so it is modelled by \<open>int\<close>; the one
  floating-point division of the source is taken exactly, which agrees with IEEE doubles
  on page-sized integers.
\<close>

subsection \<open>Constants and JavaScript helpers\<close>

definition OVERLAP_HEIGHT :: int where
  "OVERLAP_HEIGHT = 75"

definition MAX_CAPTURES :: int where
  "MAX_CAPTURES = 100"

text \<open>
  \<open>Math.round\<close>: the nearest integer, halves rounded up. The argument is a real number,
  so the progress \<open>(i / numCaptures) * 100\<close> is computed exactly. IEEE doubles land just
  below a half at a few inputs where the exact value is a half (\<open>i = 23\<close> of 40 captures is
  57 in the browser and 58 here); for the numbers of captures used below the exact value
  is never a half and both agree.
\<close>

definition Math_round :: "real \<Rightarrow> int" where
  "Math_round x = \<lfloor>x + 1 / 2\<rfloor>"

text \<open>\<open>String.prototype.includes\<close>: does \<open>pat\<close> occur somewhere in \<open>s\<close>.\<close>

fun str_includes :: "string \<Rightarrow> string \<Rightarrow> bool" where
  "str_includes [] pat = (pat = [])"
| "str_includes (c # cs) pat = (take (length pat) (c # cs) = pat \<or> str_includes cs pat)"

text \<open>\<open>String.prototype.startsWith\<close>.\<close>

definition startsWith :: "string \<Rightarrow> string \<Rightarrow> bool" where
  "startsWith s pat = (take (length pat) s = pat)"

subsection \<open>Errors, messages and the capture state\<close>

text \<open>
  Every \<open>throw\<close> of the source is a value. \<open>Thrown m\<close> is an error raised by a browser
  API (a rejected promise) with message \<open>m\<close>; the others are the errors the worker
  constructs itself.
\<close>

datatype error =
    Thrown string
  | CannotInject string
  | FailedDimensions
  | FailedScroll int
  | NoCaptures
  | StitchFailed string
  | NoActiveTab
  | NoTabId
  | UrlNotCapturable

text \<open>
  Status messages are template strings in the source; they are kept as the template and
  its arguments.
\<close>

datatype message =
    Msg string
  | MsgCapturing int int
  | MsgFailed error

record capture_state =
  sessionId :: string
  status :: string
  message :: message
  progress :: "int option"

text \<open>The outcome of an awaited browser call.\<close>

datatype 'a reply = Resolved 'a | Rejected string

record dims =
  d_success :: bool
  scrollHeight :: int
  viewportHeight :: int
  viewportWidth :: int
  currentScrollY :: int

record scroll_result =
  s_success :: bool
  scrolledToY :: int

record 'img capture =
  blob :: 'img
  scrollY :: int
  c_viewportHeight :: int
  c_viewportWidth :: int
  isLastCapture :: bool

record stitch_response =
  r_error :: "string option"
  pngBlobUrl :: string

record tab =
  tab_id :: "int option"
  tab_url :: string

text \<open>
  The collaborators the worker talks to: the content script (ping, injection, dimensions,
  scrolling), \<open>chrome.tabs.captureVisibleTab\<close> (its \<open>n\<close>-th invocation), the offscreen
  document and the download API.
\<close>

record 'img env =
  e_tabs :: "tab list reply"
  e_ping :: "unit reply"
  e_inject :: "unit reply"
  e_dims :: "dims reply"
  e_scrollTo :: "int \<Rightarrow> scroll_result reply"
  e_capture :: "nat \<Rightarrow> 'img reply"
  e_hasOffscreen :: bool
  e_createOffscreen :: "unit reply"
  e_offscreen :: "'img capture list \<Rightarrow> stitch_response option reply"
  e_download :: "unit reply"

text \<open>What the worker does to the outside, in order.\<close>

datatype event =
    EvNotify capture_state
  | EvScroll int int
  | EvSleep nat
  | EvCapture nat
  | EvStabilize nat

text \<open>
  The worker's mutable globals (\<open>currentCaptureState\<close>, \<open>activeSessions\<close>), the pending
  \<open>setTimeout\<close> callbacks that clear the state (delay and session id), the number of
  \<open>captureVisibleTab\<close> calls made so far and the trace of effects.
\<close>

record world =
  currentCaptureState :: "capture_state option"
  activeSessions :: "string \<rightharpoonup> int"
  timers :: "(nat \<times> string) list"
  captureCalls :: nat
  trace :: "event list"

definition initial_world :: world where
  "initial_world =
     \<lparr>currentCaptureState = None, activeSessions = Map.empty, timers = [],
      captureCalls = 0, trace = []\<rparr>"

definition emit :: "event \<Rightarrow> world \<Rightarrow> world" where
  "emit e w = w\<lparr>trace := trace w @ [e]\<rparr>"

text \<open>
  \<open>updateCaptureState\<close> overwrites the current state and notifies the popup. The
  \<open>timestamp\<close> field (\<open>Date.now()\<close>) is not modelled.
\<close>

definition updateCaptureState ::
  "string \<Rightarrow> string \<Rightarrow> message \<Rightarrow> int option \<Rightarrow> world \<Rightarrow> world" where
  "updateCaptureState sid st msg prog w =
     (let s = \<lparr>sessionId = sid, status = st, message = msg, progress = prog\<rparr>
      in emit (EvNotify s) (w\<lparr>currentCaptureState := Some s\<rparr>))"

subsection \<open>The number of captures\<close>

text \<open>
  \<open>numCaptures\<close> after the \<open>Math.min\<close> with \<open>MAX_CAPTURES\<close>. When the viewport is
  exactly \<open>OVERLAP_HEIGHT\<close> high the source divides a positive number by zero, which
  is \<open>Infinity\<close> in JavaScript, and \<open>Math.min(Infinity, 100)\<close> is \<open>100\<close>.
\<close>

definition numCaptures :: "int \<Rightarrow> int \<Rightarrow> int" where
  "numCaptures sh vh =
     (if sh > vh then
        (let scrollableHeight = sh - vh; step = vh - OVERLAP_HEIGHT
         in if step = 0 then MAX_CAPTURES
            else min (\<lceil>real_of_int scrollableHeight / real_of_int step\<rceil> + 1) MAX_CAPTURES)
      else min 1 MAX_CAPTURES)"

subsection \<open>Grabbing one frame with retries\<close>

text \<open>
  The \<open>while (retries > 0)\<close> loop around \<open>captureVisibleTab\<close>. The argument is the value
  of \<open>retries\<close>; the result is \<open>dataUrl\<close>, which is still undefined (\<open>None\<close>) when the
  loop is entered with no retries left.
\<close>

fun captureRetry :: "'img env \<Rightarrow> nat \<Rightarrow> world \<Rightarrow> world \<times> (error + 'img option)" where
  "captureRetry env 0 w = (w, Inr None)"
| "captureRetry env (Suc r) w =
     (let w1 = emit (EvCapture (captureCalls w)) (w\<lparr>captureCalls := Suc (captureCalls w)\<rparr>)
      in case e_capture env (captureCalls w) of
           Resolved dataUrl \<Rightarrow> (w1, Inr (Some dataUrl))
         | Rejected msg \<Rightarrow>
             if str_includes msg ''quota'' \<and> r > 0
             then captureRetry env r (emit (EvSleep 1000) w1)
             else (w1, Inl (Thrown msg)))"

subsection \<open>The capture loop\<close>

text \<open>
  One iteration of the \<open>for\<close> loop after its bottom-of-page guard: progress update,
  scroll, settle delay, grab, and the push onto \<open>captures\<close>. \<open>fetch\<close> of an undefined
  \<open>dataUrl\<close> rejects.
\<close>

definition captureStep ::
  "'img env \<Rightarrow> string \<Rightarrow> int \<Rightarrow> int \<Rightarrow> int \<Rightarrow> int \<Rightarrow> int \<Rightarrow> world \<Rightarrow> 'img capture list
     \<Rightarrow> world \<times> (error + 'img capture list)" where
  "captureStep env sid n sh vh vw i w captures =
     (let y = i * (vh - OVERLAP_HEIGHT);
          prog = Math_round (real_of_int i / real_of_int n * 100);
          w1 = updateCaptureState sid ''capturing'' (MsgCapturing (i + 1) n) (Some prog) w
      in case e_scrollTo env y of
           Rejected m \<Rightarrow> (w1, Inl (Thrown m))
         | Resolved scrollResult \<Rightarrow>
             if \<not> s_success scrollResult then (w1, Inl (FailedScroll y))
             else
               (let w2 = emit (EvSleep 600) (emit (EvScroll y (scrolledToY scrollResult)) w1)
                in case captureRetry env 3 w2 of
                     (w3, Inl e) \<Rightarrow> (w3, Inl e)
                   | (w3, Inr None) \<Rightarrow> (w3, Inl (Thrown ''Failed to fetch''))
                   | (w3, Inr (Some dataUrl)) \<Rightarrow>
                       (w3, Inr (captures @
                          [\<lparr>blob = dataUrl, scrollY = y, c_viewportHeight = vh,
                            c_viewportWidth = vw, isLastCapture = (y + vh \<ge> sh)\<rparr>]))))"

text \<open>
  The \<open>for (let i = 0; i < numCaptures; i++)\<close> loop, entered at \<open>i\<close>. It stops (\<open>break\<close>)
  at the first position beyond \<open>scrollHeight - viewportHeight\<close>.
\<close>

function captureLoop ::
  "'img env \<Rightarrow> string \<Rightarrow> int \<Rightarrow> int \<Rightarrow> int \<Rightarrow> int \<Rightarrow> int \<Rightarrow> world \<Rightarrow> 'img capture list
     \<Rightarrow> world \<times> (error + 'img capture list)" where
  "captureLoop env sid n sh vh vw i w captures =
     (if i < n then
        (if i * (vh - OVERLAP_HEIGHT) > sh - vh then (w, Inr captures)
         else (case captureStep env sid n sh vh vw i w captures of
                 (w', Inl e) \<Rightarrow> (w', Inl e)
               | (w', Inr captures') \<Rightarrow> captureLoop env sid n sh vh vw (i + 1) w' captures'))
      else (w, Inr captures))"
  by pat_completeness auto
termination
  by (relation "measure (\<lambda>(env, sid, n, sh, vh, vw, i, w, captures). nat (n - i))") auto

declare captureLoop.simps [simp del]

subsection \<open>The whole capture\<close>

text \<open>\<open>ensureContentScript\<close>: ping, and inject (then wait 100 ms) when the ping fails.\<close>

definition ensureContentScript :: "'img env \<Rightarrow> world \<Rightarrow> world \<times> (error + unit)" where
  "ensureContentScript env w =
     (case e_ping env of
        Resolved _ \<Rightarrow> (w, Inr ())
      | Rejected _ \<Rightarrow>
          (case e_inject env of
             Resolved _ \<Rightarrow> (emit (EvSleep 100) w, Inr ())
           | Rejected m \<Rightarrow> (w, Inl (CannotInject m))))"

text \<open>
  \<open>createOffscreenDocument\<close>: nothing to do when the document exists; a failure whose
  message says that it already exists is swallowed.
\<close>

definition createOffscreenDocument :: "'img env \<Rightarrow> world \<Rightarrow> world \<times> (error + unit)" where
  "createOffscreenDocument env w =
     (if e_hasOffscreen env then (w, Inr ())
      else (case e_createOffscreen env of
              Resolved _ \<Rightarrow> (emit (EvSleep 300) w, Inr ())
            | Rejected m \<Rightarrow>
                if m \<noteq> [] \<and> str_includes m ''already exists'' then (w, Inr ())
                else (w, Inl (Thrown m))))"

text \<open>
  Steps 3 to 5 of \<open>scrollAndStitchCapture\<close>: the captures go to the offscreen document,
  its answer is checked (an absent or empty \<open>error\<close> field is falsy), and the original
  scroll position is restored (a failure there is only logged). Re-encoding the blobs as
  data URLs does not change them.
\<close>

definition stitchAndRestore ::
  "'img env \<Rightarrow> 'img capture list \<Rightarrow> int \<Rightarrow> world \<Rightarrow> world \<times> (error + stitch_response)" where
  "stitchAndRestore env captures originalScrollY w =
     (case createOffscreenDocument env w of
        (w1, Inl e) \<Rightarrow> (w1, Inl e)
      | (w1, Inr _) \<Rightarrow>
          (case e_offscreen env captures of
             Rejected m \<Rightarrow> (w1, Inl (Thrown m))
           | Resolved None \<Rightarrow> (w1, Inl (Thrown ''No response from offscreen document''))
           | Resolved (Some stitchResult) \<Rightarrow>
               if r_error stitchResult \<noteq> None \<and> r_error stitchResult \<noteq> Some []
               then (w1, Inl (StitchFailed (the (r_error stitchResult))))
               else
                 (case e_scrollTo env originalScrollY of
                    Resolved r \<Rightarrow>
                      (emit (EvScroll originalScrollY (scrolledToY r)) w1, Inr stitchResult)
                  | Rejected _ \<Rightarrow> (w1, Inr stitchResult))))"

definition scrollAndStitchCapture ::
  "'img env \<Rightarrow> string \<Rightarrow> world \<Rightarrow> world \<times> (error + stitch_response)" where
  "scrollAndStitchCapture env sid w =
     (let w1 = updateCaptureState sid ''preparing'' (Msg ''Preparing page...'') None w
      in case ensureContentScript env w1 of
           (w2, Inl e) \<Rightarrow> (w2, Inl e)
         | (w2, Inr _) \<Rightarrow>
             (let w3 = updateCaptureState sid ''capturing''
                         (Msg ''Getting page dimensions...'') None w2
              in case e_dims env of
                   Rejected m \<Rightarrow> (w3, Inl (Thrown m))
                 | Resolved d \<Rightarrow>
                     if \<not> d_success d then (w3, Inl FailedDimensions)
                     else
                       (let n = numCaptures (scrollHeight d) (viewportHeight d)
                        in case captureLoop env sid n (scrollHeight d) (viewportHeight d)
                                  (viewportWidth d) 0 w3 [] of
                             (w4, Inl e) \<Rightarrow> (w4, Inl e)
                           | (w4, Inr captures) \<Rightarrow>
                               if captures = [] then (w4, Inl NoCaptures)
                               else
                                 stitchAndRestore env captures (currentScrollY d)
                                   (updateCaptureState sid ''stitching''
                                      (Msg ''Stitching captures together...'') (Some 95) w4))))"

subsection \<open>A capture session\<close>

definition restrictedSchemes :: "string list" where
  "restrictedSchemes =
     [''chrome://'', ''chrome-extension://'', ''brave://'', ''edge://'', ''opera://'',
      ''about:'', ''view-source:'', ''file://'']"

definition isCapturableUrl :: "string \<Rightarrow> bool" where
  "isCapturableUrl url =
     (if url = [] then False else \<not> list_ex (\<lambda>scheme. startsWith url scheme) restrictedSchemes)"

record config =
  preCapture :: bool
  preCaptureMaxDuration :: nat

definition DEFAULT_CONFIG :: config where
  "DEFAULT_CONFIG = \<lparr>preCapture = False, preCaptureMaxDuration = 10000\<rparr>"

text \<open>
  The \<open>try\<close> block of \<open>startCapture\<close>. The session id is \<open>Math.random()\<close> in the source
  and a parameter here. The last step on success schedules the callback that clears the
  capture state after 5000 ms. The file name of the download is not modelled: it is built
  from the URL of the tab, which always parses.
\<close>

definition startCaptureTry ::
  "'img env \<Rightarrow> config \<Rightarrow> string \<Rightarrow> world \<Rightarrow> world \<times> (error + unit)" where
  "startCaptureTry env cfg sid w =
     (case e_tabs env of
        Rejected m \<Rightarrow> (w, Inl (Thrown m))
      | Resolved [] \<Rightarrow> (w, Inl NoActiveTab)
      | Resolved (t # _) \<Rightarrow>
          (case tab_id t of
             None \<Rightarrow> (w, Inl NoTabId)
           | Some tid \<Rightarrow>
               if tid = 0 then (w, Inl NoTabId)
               else if \<not> isCapturableUrl (tab_url t) then
                 (updateCaptureState sid ''error''
                    (Msg (''Cannot capture this page. Please navigate to a regular website.''
                          @ [CHR 0x0A, CHR 0x0A]
                          @ ''Browser internal pages cannot be captured for security reasons.''))
                    None w,
                  Inl UrlNotCapturable)
               else
                 (let w1 = updateCaptureState sid ''started'' (Msg ''Starting capture...'') None
                             (w\<lparr>activeSessions := (activeSessions w)(sid \<mapsto> tid)\<rparr>);
                      w2 = (if preCapture cfg then
                              emit (EvSleep 500) (emit (EvStabilize (preCaptureMaxDuration cfg))
                                (updateCaptureState sid ''stabilizing''
                                   (Msg ''Stabilizing DOM...'') None w1))
                            else w1)
                  in case scrollAndStitchCapture env sid w2 of
                       (w3, Inl e) \<Rightarrow> (w3, Inl e)
                     | (w3, Inr stitchResult) \<Rightarrow>
                         (let w4 = updateCaptureState sid ''downloading''
                                     (Msg ''Downloading image...'') None w3
                          in case e_download env of
                               Rejected m \<Rightarrow> (w4, Inl (Thrown m))
                             | Resolved _ \<Rightarrow>
                                 (let w5 = updateCaptureState sid ''completed''
                                             (Msg ''Capture complete!'') (Some 100) w4
                                  in (w5\<lparr>timers := timers w5 @ [(5000, sid)]\<rparr>, Inr ()))))))"

text \<open>\<open>startCapture\<close>: the \<open>try\<close> block, the \<open>catch\<close> and the \<open>finally\<close>.\<close>

definition startCapture :: "'img env \<Rightarrow> config \<Rightarrow> string \<Rightarrow> world \<Rightarrow> world" where
  "startCapture env cfg sid w =
     (let w' = (case startCaptureTry env cfg sid w of
                  (w1, Inl e) \<Rightarrow> updateCaptureState sid ''error'' (MsgFailed e) None w1
                | (w1, Inr _) \<Rightarrow> w1)
      in w'\<lparr>activeSessions := (activeSessions w')(sid := None)\<rparr>)"

text \<open>The callback given to \<open>setTimeout\<close>, and the firing of every pending timer.\<close>

definition clearCaptureState :: "string \<Rightarrow> world \<Rightarrow> world" where
  "clearCaptureState sid w =
     (case currentCaptureState w of
        Some s \<Rightarrow> if sessionId s = sid then w\<lparr>currentCaptureState := None\<rparr> else w
      | None \<Rightarrow> w)"

definition fireTimers :: "world \<Rightarrow> world" where
  "fireTimers w = foldl (\<lambda>w' (delay, sid). clearCaptureState sid w') (w\<lparr>timers := []\<rparr>) (timers w)"

subsection \<open>The keyboard shortcut\<close>

definition captureInProgress :: "world \<Rightarrow> bool" where
  "captureInProgress w =
     (case currentCaptureState w of
        None \<Rightarrow> False
      | Some s \<Rightarrow> status s \<noteq> ''completed'' \<and> status s \<noteq> ''error'')"

text \<open>
  The \<open>chrome.commands.onCommand\<close> listener; \<open>cfg\<close> is what \<open>chrome.storage.sync.get\<close>
  hands to its callback.
\<close>

definition onCommand :: "'img env \<Rightarrow> config \<Rightarrow> string \<Rightarrow> string \<Rightarrow> world \<Rightarrow> world" where
  "onCommand env cfg sid command w =
     (if command = ''capture-page'' then
        (if captureInProgress w then w else startCapture env cfg sid w)
      else w)"

subsection \<open>The keyboard shortcut between suspensions\<close>

text \<open>
  The worker runs one piece of code at a time, and a piece ends where the code waits for
  the browser. A capture started by the shortcut waits three times before its work
  begins: the listener hands a callback to \<open>chrome.storage.sync.get\<close> and returns;
  the callback calls \<open>startCapture\<close>, which draws its session id and waits for
  \<open>getCurrentTab\<close>; the code after that checks the tab, registers the session, writes
  its first capture states and waits for the content script. Other commands can arrive
  at each of these waits.

  \<open>collectAndStitch\<close> is \<open>scrollAndStitchCapture\<close> after its first write, from the
  call of \<open>ensureContentScript\<close> on.
\<close>

definition collectAndStitch ::
  "'img env \<Rightarrow> string \<Rightarrow> world \<Rightarrow> world \<times> (error + stitch_response)" where
  "collectAndStitch env sid w1 =
     (case ensureContentScript env w1 of
        (w2, Inl e) \<Rightarrow> (w2, Inl e)
      | (w2, Inr _) \<Rightarrow>
          (let w3 = updateCaptureState sid ''capturing''
                      (Msg ''Getting page dimensions...'') None w2
           in case e_dims env of
                Rejected m \<Rightarrow> (w3, Inl (Thrown m))
              | Resolved d \<Rightarrow>
                  if \<not> d_success d then (w3, Inl FailedDimensions)
                  else
                    (let n = numCaptures (scrollHeight d) (viewportHeight d)
                     in case captureLoop env sid n (scrollHeight d) (viewportHeight d)
                               (viewportWidth d) 0 w3 [] of
                          (w4, Inl e) \<Rightarrow> (w4, Inl e)
                        | (w4, Inr captures) \<Rightarrow>
                            if captures = [] then (w4, Inl NoCaptures)
                            else
                              stitchAndRestore env captures (currentScrollY d)
                                (updateCaptureState sid ''stitching''
                                   (Msg ''Stitching captures together...'') (Some 95) w4))))"

text \<open>
  \<open>sessionOpen\<close>: the \<open>try\<close> block of \<open>startCapture\<close> from the answer of \<open>getCurrentTab\<close>
  to the next wait, which is the request to stabilise the DOM when \<open>preCapture\<close> is set
  and the ping of the content script (after the \<open>preparing\<close> write of
  \<open>scrollAndStitchCapture\<close>) otherwise.
\<close>

definition sessionOpen ::
  "'img env \<Rightarrow> config \<Rightarrow> string \<Rightarrow> world \<Rightarrow> world \<times> (error + unit)" where
  "sessionOpen env cfg sid w =
     (case e_tabs env of
        Rejected m \<Rightarrow> (w, Inl (Thrown m))
      | Resolved [] \<Rightarrow> (w, Inl NoActiveTab)
      | Resolved (t # _) \<Rightarrow>
          (case tab_id t of
             None \<Rightarrow> (w, Inl NoTabId)
           | Some tid \<Rightarrow>
               if tid = 0 then (w, Inl NoTabId)
               else if \<not> isCapturableUrl (tab_url t) then
                 (updateCaptureState sid ''error''
                    (Msg (''Cannot capture this page. Please navigate to a regular website.''
                          @ [CHR 0x0A, CHR 0x0A]
                          @ ''Browser internal pages cannot be captured for security reasons.''))
                    None w,
                  Inl UrlNotCapturable)
               else
                 (let w1 = updateCaptureState sid ''started'' (Msg ''Starting capture...'') None
                             (w\<lparr>activeSessions := (activeSessions w)(sid \<mapsto> tid)\<rparr>)
                  in if preCapture cfg then
                       (emit (EvStabilize (preCaptureMaxDuration cfg))
                          (updateCaptureState sid ''stabilizing''
                             (Msg ''Stabilizing DOM...'') None w1),
                        Inr ())
                     else
                       (updateCaptureState sid ''preparing'' (Msg ''Preparing page...'') None w1,
                        Inr ()))))"

text \<open>
  \<open>sessionRest\<close>: the rest of the \<open>try\<close> block, taken in one piece; the waits inside it
  are not told apart.
\<close>

definition sessionRest ::
  "'img env \<Rightarrow> config \<Rightarrow> string \<Rightarrow> world \<Rightarrow> world \<times> (error + unit)" where
  "sessionRest env cfg sid w =
     (case (if preCapture cfg then scrollAndStitchCapture env sid (emit (EvSleep 500) w)
            else collectAndStitch env sid w) of
        (w3, Inl e) \<Rightarrow> (w3, Inl e)
      | (w3, Inr stitchResult) \<Rightarrow>
          (let w4 = updateCaptureState sid ''downloading''
                      (Msg ''Downloading image...'') None w3
           in case e_download env of
                Rejected m \<Rightarrow> (w4, Inl (Thrown m))
              | Resolved _ \<Rightarrow>
                  (let w5 = updateCaptureState sid ''completed''
                              (Msg ''Capture complete!'') (Some 100) w4
                   in (w5\<lparr>timers := timers w5 @ [(5000, sid)]\<rparr>, Inr ()))))"

text \<open>\<open>settle\<close>: the \<open>catch\<close> and the \<open>finally\<close> of \<open>startCapture\<close>.\<close>

definition settle :: "string \<Rightarrow> world \<times> (error + unit) \<Rightarrow> world" where
  "settle sid r =
     (let w' = (case r of
                  (w1, Inl e) \<Rightarrow> updateCaptureState sid ''error'' (MsgFailed e) None w1
                | (w1, Inr _) \<Rightarrow> w1)
      in w'\<lparr>activeSessions := (activeSessions w')(sid := None)\<rparr>)"

text \<open>
  What can happen next: the user presses the shortcut; the storage answers the oldest
  pending read and \<open>startCapture\<close> draws a session id; \<open>getCurrentTab\<close> answers the
  session of that id; the wait of an opened session ends.
\<close>

datatype arrival =
    Command string
  | ConfigRead config string
  | TabResolved string
  | Resumed string

text \<open>
  The worker with what it is waiting for: the number of pending storage reads, the
  sessions waiting for \<open>getCurrentTab\<close> and the opened sessions waiting to go on.
\<close>

record hotkey_state =
  hk_world :: world
  pendingReads :: nat
  awaitingTab :: "(string \<times> config) list"
  opened :: "(string \<times> config) list"

definition idle :: hotkey_state where
  "idle = \<lparr>hk_world = initial_world, pendingReads = 0, awaitingTab = [], opened = []\<rparr>"

fun hotkeyStep :: "'img env \<Rightarrow> arrival \<Rightarrow> hotkey_state \<Rightarrow> hotkey_state" where
  "hotkeyStep env (Command command) st =
     (if command = ''capture-page'' then
        (if captureInProgress (hk_world st) then st
         else st\<lparr>pendingReads := Suc (pendingReads st)\<rparr>)
      else st)"
| "hotkeyStep env (ConfigRead cfg sid) st =
     (if pendingReads st = 0 then st
      else st\<lparr>pendingReads := pendingReads st - 1,
              awaitingTab := awaitingTab st @ [(sid, cfg)]\<rparr>)"
| "hotkeyStep env (TabResolved sid) st =
     (case map_of (awaitingTab st) sid of
        None \<Rightarrow> st
      | Some cfg \<Rightarrow>
          (let st' = st\<lparr>awaitingTab := filter (\<lambda>p. fst p \<noteq> sid) (awaitingTab st)\<rparr>
           in case sessionOpen env cfg sid (hk_world st) of
                (w1, Inl e) \<Rightarrow> st'\<lparr>hk_world := settle sid (w1, Inl e)\<rparr>
              | (w1, Inr u) \<Rightarrow> st'\<lparr>hk_world := w1, opened := opened st @ [(sid, cfg)]\<rparr>))"
| "hotkeyStep env (Resumed sid) st =
     (case map_of (opened st) sid of
        None \<Rightarrow> st
      | Some cfg \<Rightarrow>
          st\<lparr>hk_world := settle sid (sessionRest env cfg sid (hk_world st)),
             opened := filter (\<lambda>p. fst p \<noteq> sid) (opened st)\<rparr>)"

definition hotkeyRun :: "'img env \<Rightarrow> arrival list \<Rightarrow> hotkey_state \<Rightarrow> hotkey_state" where
  "hotkeyRun env arrivals st = foldl (\<lambda>s a. hotkeyStep env a s) st arrivals"

section \<open>Offscreen document: stitching\<close>

text \<open>
  A decoded capture: its size and its pixels (column \<open>x\<close>, row \<open>y\<close>). Screenshots are
  opaque. The other fields the offscreen document copies from each capture
  (\<open>scrollY\<close>, \<open>viewportHeight\<close>, \<open>isLastCapture\<close>) are never read by the stitcher.
\<close>

record 'p image =
  img_width :: int
  img_height :: int
  pixel :: "int \<Rightarrow> int \<Rightarrow> 'p"

text \<open>The values \<open>sanitizeCanvasDimension\<close> distinguishes.\<close>

datatype jsval = Undefined | Null | NaN | PosInfinity | NegInfinity | Num real

definition sanitizeCanvasDimension :: "jsval \<Rightarrow> int \<Rightarrow> int" where
  "sanitizeCanvasDimension v defaultValue =
     (case v of
        Undefined \<Rightarrow> defaultValue
      | Null \<Rightarrow> defaultValue
      | NaN \<Rightarrow> defaultValue
      | PosInfinity \<Rightarrow> defaultValue
      | NegInfinity \<Rightarrow> defaultValue
      | Num numValue \<Rightarrow>
          (let intValue = \<lfloor>numValue\<rfloor>;
               intValue = (if intValue < 1 then defaultValue else intValue)
           in if intValue > 32767 then 32767 else intValue))"

text \<open>
  A \<open>drawImage\<close> call as the stitcher makes it: which image, the alpha in force, the
  source corner, the size of the rectangle and the destination corner. Both calls of the
  source pass the same width and height for the source and the destination rectangle, so
  nothing is scaled and the size is kept once.
\<close>

record draw_call =
  dc_image :: nat
  dc_alpha :: real
  dc_sx :: int
  dc_sy :: int
  dc_w :: int
  dc_h :: int
  dc_dx :: int
  dc_dy :: int

text \<open>
  The canvas and its 2D context. A canvas pixel is the list of paints that show through,
  the latest first: an opaque paint replaces what was there, a translucent one is laid
  over it, and the empty list is the transparent pixel of a new canvas.
\<close>

record 'p canvas =
  c_width :: int
  c_height :: int
  globalAlpha :: real
  bitmap :: "int \<Rightarrow> int \<Rightarrow> (real \<times> 'p) list"
  calls :: "draw_call list"

definition OffscreenCanvas :: "int \<Rightarrow> int \<Rightarrow> 'p canvas" where
  "OffscreenCanvas w h =
     \<lparr>c_width = w, c_height = h, globalAlpha = 1, bitmap = (\<lambda>x y. []), calls = []\<rparr>"

definition paint :: "real \<Rightarrow> 'p \<Rightarrow> (real \<times> 'p) list \<Rightarrow> (real \<times> 'p) list" where
  "paint a p old = (if a = 1 then [(1, p)] else (a, p) # old)"

text \<open>\<open>v\<close> lies in the span that starts at \<open>a\<close> and extends by \<open>len\<close> (to the left when
  \<open>len\<close> is negative, as the canvas does with a negative width or height).\<close>

definition in_span :: "int \<Rightarrow> int \<Rightarrow> int \<Rightarrow> bool" where
  "in_span a len v = (min a (a + len) \<le> v \<and> v < max a (a + len))"

text \<open>
  Unscaled \<open>drawImage\<close>: every canvas pixel of the destination rectangle whose source
  pixel lies inside the image is painted with it. The index \<open>i\<close> only labels the call
  in the log.
\<close>

definition drawImage ::
  "nat \<Rightarrow> 'p image \<Rightarrow> int \<Rightarrow> int \<Rightarrow> int \<Rightarrow> int \<Rightarrow> int \<Rightarrow> int \<Rightarrow> 'p canvas \<Rightarrow> 'p canvas" where
  "drawImage i img sx sy w h dx dy ctx =
     ctx\<lparr>bitmap := (\<lambda>x y.
            if 0 \<le> x \<and> x < c_width ctx \<and> 0 \<le> y \<and> y < c_height ctx
               \<and> in_span dx w x \<and> in_span dy h y
               \<and> 0 \<le> x - dx + sx \<and> x - dx + sx < img_width img
               \<and> 0 \<le> y - dy + sy \<and> y - dy + sy < img_height img
            then paint (globalAlpha ctx) (pixel img (x - dx + sx) (y - dy + sy)) (bitmap ctx x y)
            else bitmap ctx x y),
         calls := calls ctx @
           [\<lparr>dc_image = i, dc_alpha = globalAlpha ctx, dc_sx = sx, dc_sy = sy,
             dc_w = w, dc_h = h, dc_dx = dx, dc_dy = dy\<rparr>]\<rparr>"

text \<open>
  The drawing loop of \<open>stitchCapturedViewports\<close>, entered at image \<open>i\<close> with \<open>currentY\<close>;
  it returns the final \<open>currentY\<close> and the context.
\<close>

fun drawLoop ::
  "'p image list \<Rightarrow> nat \<Rightarrow> int \<Rightarrow> int \<Rightarrow> int \<Rightarrow> 'p canvas \<Rightarrow> int \<times> 'p canvas" where
  "drawLoop [] i canvasWidth overlapHeight currentY ctx = (currentY, ctx)"
| "drawLoop (img # rest) i canvasWidth overlapHeight currentY ctx =
     (let drawHeight = (if i = 0 then img_height img else img_height img - overlapHeight);
          sourceY = (if i = 0 then 0 else overlapHeight);
          ctx1 = (if i > 0 then
                    (drawImage i img 0 sourceY canvasWidth overlapHeight 0 currentY
                       (ctx\<lparr>globalAlpha := 1 / 2\<rparr>))\<lparr>globalAlpha := 1\<rparr>
                  else ctx);
          ctx2 = drawImage i img 0 sourceY canvasWidth
                   (drawHeight - (if i > 0 then overlapHeight else 0))
                   0 (currentY + (if i > 0 then overlapHeight else 0)) ctx1
      in drawLoop rest (Suc i) canvasWidth overlapHeight (currentY + drawHeight) ctx2)"

text \<open>The height loop: every capture after the first adds its height less the overlap.\<close>

definition totalHeight :: "'p image \<Rightarrow> 'p image list \<Rightarrow> int \<Rightarrow> int" where
  "totalHeight first rest overlapHeight =
     foldl (\<lambda>t img. t + (img_height img - overlapHeight)) (img_height first) rest"

datatype stitch_error = NoCapturesToStitch

text \<open>
  \<open>stitchCapturedViewports\<close> up to the encoding of the canvas: the final \<open>currentY\<close> and
  the drawn canvas. \<open>overlapHeight\<close> is the integer the service worker sends.
\<close>

definition stitchCapturedViewports ::
  "'p image list \<Rightarrow> int \<Rightarrow> stitch_error + (int \<times> 'p canvas)" where
  "stitchCapturedViewports images overlapHeight =
     (case images of
        [] \<Rightarrow> Inl NoCapturesToStitch
      | first # rest \<Rightarrow>
          (let canvasWidth = img_width first;
               total = totalHeight first rest overlapHeight;
               sanitizedWidth = sanitizeCanvasDimension (Num (real_of_int canvasWidth)) 800;
               sanitizedHeight = sanitizeCanvasDimension (Num (real_of_int total)) 600
           in Inr (drawLoop images 0 canvasWidth overlapHeight 0
                     (OffscreenCanvas sanitizedWidth sanitizedHeight))))"

section \<open>Observations and sample runs\<close>

text \<open>
  The scroll positions the capture loop visits when it is entered at \<open>i\<close> and no step
  fails: the loop header and its bottom-of-page guard, without the effects.
\<close>

function offsetsFrom :: "int \<Rightarrow> int \<Rightarrow> int \<Rightarrow> int \<Rightarrow> int list" where
  "offsetsFrom n sh vh i =
     (if i < n then
        (if i * (vh - OVERLAP_HEIGHT) > sh - vh then []
         else i * (vh - OVERLAP_HEIGHT) # offsetsFrom n sh vh (i + 1))
      else [])"
  by pat_completeness auto
termination
  by (relation "measure (\<lambda>(n, sh, vh, i). nat (n - i))") auto

declare offsetsFrom.simps [simp del]

definition captureOffsets :: "int \<Rightarrow> int \<Rightarrow> int list" where
  "captureOffsets sh vh = offsetsFrom (numCaptures sh vh) sh vh 0"

text \<open>What a run leaves behind: the positions the controller reported and the numeric
  progress values written, each in order.\<close>

fun landedPositions :: "event list \<Rightarrow> int list" where
  "landedPositions [] = []"
| "landedPositions (EvScroll req landed # es) = landed # landedPositions es"
| "landedPositions (_ # es) = landedPositions es"

fun progressWrites :: "event list \<Rightarrow> int list" where
  "progressWrites [] = []"
| "progressWrites (EvNotify s # es) =
     (case progress s of Some p \<Rightarrow> p # progressWrites es | None \<Rightarrow> progressWrites es)"
| "progressWrites (_ # es) = progressWrites es"

definition capturesOf :: "world \<times> (error + 'img capture list) \<Rightarrow> 'img capture list" where
  "capturesOf r = (case snd r of Inr captures \<Rightarrow> captures | Inl _ \<Rightarrow> [])"


text \<open>
  A page of the given geometry on which every collaborator succeeds: the controller lands
  where it is asked to, and the \<open>n\<close>-th grab returns the frame \<open>n\<close>.
\<close>

definition page_env :: "int \<Rightarrow> int \<Rightarrow> nat env" where
  "page_env sh vh =
     \<lparr>e_tabs = Resolved [\<lparr>tab_id = Some 7, tab_url = ''https://example.org/''\<rparr>],
      e_ping = Resolved (),
      e_inject = Resolved (),
      e_dims = Resolved \<lparr>d_success = True, scrollHeight = sh, viewportHeight = vh,
                          viewportWidth = 1280, currentScrollY = 0\<rparr>,
      e_scrollTo = (\<lambda>y. Resolved \<lparr>s_success = True, scrolledToY = y\<rparr>),
      e_capture = (\<lambda>n. Resolved n),
      e_hasOffscreen = False,
      e_createOffscreen = Resolved (),
      e_offscreen = (\<lambda>cs. Resolved (Some \<lparr>r_error = None, pngBlobUrl = ''blob:stitched''\<rparr>)),
      e_download = Resolved ()\<rparr>"

text \<open>The same page after it has shrunk to a height of 2800 since its dimensions were
  measured: the controller cannot scroll beyond 1800.\<close>

definition clamping_env :: "nat env" where
  "clamping_env =
     (page_env 3000 1000)
       \<lparr>e_scrollTo := (\<lambda>y. Resolved \<lparr>s_success = True, scrolledToY = min y 1800\<rparr>)\<rparr>"



text \<open>A browser-internal page.\<close>

definition internal_env :: "nat env" where
  "internal_env =
     (page_env 3000 1000)
       \<lparr>e_tabs := Resolved [\<lparr>tab_id = Some 7, tab_url = ''chrome://extensions/''\<rparr>]\<rparr>"

text \<open>Frames whose pixel at \<open>(x, y)\<close> names the frame and the position it comes from.\<close>

definition frame :: "nat \<Rightarrow> int \<Rightarrow> int \<Rightarrow> (nat \<times> int \<times> int) image" where
  "frame k w h = \<lparr>img_width = w, img_height = h, pixel = (\<lambda>x y. (k, x, y))\<rparr>"

section \<open>Facts about the collector\<close>

lemma emit_fields [simp]:
  "captureCalls (emit e w) = captureCalls w"
  "trace (emit e w) = trace w @ [e]"
  "timers (emit e w) = timers w"
  "currentCaptureState (emit e w) = currentCaptureState w"
  "activeSessions (emit e w) = activeSessions w"
  by (simp_all add: emit_def)

text \<open>A write to the tracker replaces the state by what was written and notifies it last.\<close>

lemma updateCaptureState_fields [simp]:
  "captureCalls (updateCaptureState sid st msg p w) = captureCalls w"
  "timers (updateCaptureState sid st msg p w) = timers w"
  "activeSessions (updateCaptureState sid st msg p w) = activeSessions w"
  "currentCaptureState (updateCaptureState sid st msg p w) =
     Some \<lparr>sessionId = sid, status = st, message = msg, progress = p\<rparr>"
  "trace (updateCaptureState sid st msg p w) =
     trace w @ [EvNotify \<lparr>sessionId = sid, status = st, message = msg, progress = p\<rparr>]"
  by (simp_all add: updateCaptureState_def Let_def)

lemmas run_simps =
  captureLoop.simps captureStep_def updateCaptureState_def emit_def Let_def numeral_3_eq_3
  Math_round_def OVERLAP_HEIGHT_def MAX_CAPTURES_def numCaptures_def initial_world_def
  page_env_def capturesOf_def scrollAndStitchCapture_def ensureContentScript_def
  createOffscreenDocument_def stitchAndRestore_def startCaptureTry_def startCapture_def
  isCapturableUrl_def restrictedSchemes_def startsWith_def DEFAULT_CONFIG_def

subsection \<open>The retry loop\<close>








subsection \<open>One iteration and the loop\<close>






subsection \<open>The recorded scroll positions\<close>

lemma captureStep_scrollY:
  "captureStep env sid n sh vh vw i w cs = (w', Inr cs')
     \<Longrightarrow> map scrollY cs' = map scrollY cs @ [i * (vh - OVERLAP_HEIGHT)]"
  by (auto simp add: captureStep_def Let_def split: reply.splits if_splits prod.splits
      sum.splits option.splits)

text \<open>A loop that ends without an error has recorded exactly the positions of
  \<open>offsetsFrom\<close>, whatever the collaborators answered.\<close>

lemma captureLoop_scrollY:
  "captureLoop env sid n sh vh vw i w cs = (w', Inr cs')
     \<Longrightarrow> map scrollY cs' = map scrollY cs @ offsetsFrom n sh vh i"
proof (induction env sid n sh vh vw i w cs rule: captureLoop.induct)
  case (1 env sid n sh vh vw i w cs)
  show ?case
  proof (cases "i < n \<and> i * (vh - OVERLAP_HEIGHT) \<le> sh - vh")
    case False
    with "1.prems" show ?thesis
      by (subst offsetsFrom.simps, subst (asm) captureLoop.simps) (auto split: if_splits)
  next
    case True
    obtain w1 r1 where st: "captureStep env sid n sh vh vw i w cs = (w1, r1)"
      by (cases "captureStep env sid n sh vh vw i w cs")
    show ?thesis
    proof (cases r1)
      case (Inl e)
      with True st "1.prems" show ?thesis
        by (subst (asm) captureLoop.simps) simp
    next
      case (Inr cs1)
      with True st "1.prems"
      have rec: "captureLoop env sid n sh vh vw (i + 1) w1 cs1 = (w', Inr cs')"
        by (subst (asm) captureLoop.simps) simp
      from True st Inr have "map scrollY cs' = map scrollY cs1 @ offsetsFrom n sh vh (i + 1)"
        using "1.IH" [of w1 r1 cs1] rec by simp
      moreover have "map scrollY cs1 = map scrollY cs @ [i * (vh - OVERLAP_HEIGHT)]"
        using st Inr captureStep_scrollY by blast
      moreover have "offsetsFrom n sh vh i
          = i * (vh - OVERLAP_HEIGHT) # offsetsFrom n sh vh (i + 1)"
        using True by (subst offsetsFrom.simps) simp
      ultimately show ?thesis by simp
    qed
  qed
qed

lemma offsetsFrom_nth:
  "j < length (offsetsFrom n sh vh i)
     \<Longrightarrow> offsetsFrom n sh vh i ! j = (i + int j) * (vh - OVERLAP_HEIGHT)"
proof (induction n sh vh i arbitrary: j rule: offsetsFrom.induct)
  case (1 n sh vh i)
  show ?case
  proof (cases "i < n \<and> i * (vh - OVERLAP_HEIGHT) \<le> sh - vh")
    case False
    with "1.prems" show ?thesis
      by (subst (asm) offsetsFrom.simps) (auto split: if_splits)
  next
    case True
    then have unf: "offsetsFrom n sh vh i
        = i * (vh - OVERLAP_HEIGHT) # offsetsFrom n sh vh (i + 1)"
      by (subst offsetsFrom.simps) simp
    show ?thesis
    proof (cases j)
      case 0
      with unf show ?thesis by simp
    next
      case (Suc j')
      with "1.prems" unf have "j' < length (offsetsFrom n sh vh (i + 1))" by simp
      with True have "offsetsFrom n sh vh (i + 1) ! j' = (i + 1 + int j') * (vh - OVERLAP_HEIGHT)"
        using "1.IH" [of j'] by simp
      with unf Suc show ?thesis by (simp add: algebra_simps)
    qed
  qed
qed

text \<open>A page shorter than the viewport: the guard stops the loop before its first
  iteration, and a page exactly as high as the viewport is captured once, at 0.\<close>

lemma short_page_no_offsets:
  "sh < vh \<Longrightarrow> captureOffsets sh vh = []"
  by (simp add: captureOffsets_def numCaptures_def MAX_CAPTURES_def offsetsFrom.simps)

lemma short_page_collects_nothing:
  "sh < vh \<Longrightarrow> captureLoop env sid (numCaptures sh vh) sh vh vw 0 w [] = (w, Inr [])"
  by (subst captureLoop.simps) (simp add: numCaptures_def MAX_CAPTURES_def)

lemma fitting_page_one_offset:
  "captureOffsets vh vh = [0]"
  by (simp add: captureOffsets_def numCaptures_def MAX_CAPTURES_def offsetsFrom.simps)

section \<open>The capture plan\<close>



text \<open>
  Claim C4 says that every page with \<open>scrollHeight \<le> viewportHeight\<close> is captured in one
  frame at offset 0. On a page 985 high in a viewport 1000 high the number of captures is
  1, but the guard of the loop compares the position 0 with \<open>985 - 1000\<close> and leaves the
  loop before the first grab: no frame is collected, the grabber is never called, and the
  session ends in the error \<open>No captures were collected\<close>.
\<close>

theorem C4_short_page_collects_nothing:
  "numCaptures 985 1000 = 1
   \<and> captureOffsets 985 1000 = []
   \<and> snd (scrollAndStitchCapture (page_env 985 1000) ''s'' initial_world) = Inl NoCaptures
   \<and> captureCalls (fst (scrollAndStitchCapture (page_env 985 1000) ''s'' initial_world)) = 0
   \<and> currentCaptureState (startCapture (page_env 985 1000) DEFAULT_CONFIG ''s'' initial_world)
       = Some \<lparr>sessionId = ''s'', status = ''error'', message = MsgFailed NoCaptures,
                progress = None\<rparr>"
  by (simp add: run_simps captureOffsets_def offsetsFrom.simps)

section \<open>The retry policy\<close>



section \<open>The recorded scroll position\<close>

text \<open>
  Claim C6, as stated: the \<open>scrollY\<close> recorded with a frame is the position the controller
  reports. On a page whose controller cannot scroll beyond 1800 the third frame is
  requested at 1850, the controller reports 1800, and the positions recorded differ from
  the positions reported.
\<close>

theorem C6_landed_position_counterexample:
  "map scrollY (capturesOf (captureLoop clamping_env ''s'' 4 3000 1000 1280 0 initial_world []))
     \<noteq> landedPositions (trace (fst (captureLoop clamping_env ''s'' 4 3000 1000 1280 0
                                      initial_world [])))"
  by (simp add: run_simps clamping_env_def)

text \<open>
  Claim C6, amended. For every captured frame the recorded \<open>scrollY\<close> is the requested
  offset: the frame with index \<open>j\<close> carries \<open>j \<times> (viewportHeight - 75)\<close>, whatever position
  the controller reports; the reported position is only logged.
\<close>

theorem C6_scrollY_is_requested:
  assumes "snd (captureLoop env sid n sh vh vw 0 w []) = Inr captures"
    and "j < length captures"
  shows "scrollY (captures ! j) = int j * (vh - OVERLAP_HEIGHT)"
proof -
  from assms(1) have "captureLoop env sid n sh vh vw 0 w []
      = (fst (captureLoop env sid n sh vh vw 0 w []), Inr captures)"
    by (metis prod.collapse)
  then have m: "map scrollY captures = offsetsFrom n sh vh 0"
    using captureLoop_scrollY by fastforce
  with assms(2) have "j < length (offsetsFrom n sh vh 0)"
    by (metis length_map)
  then have "offsetsFrom n sh vh 0 ! j = (0 + int j) * (vh - OVERLAP_HEIGHT)"
    by (rule offsetsFrom_nth)
  with m assms(2) show ?thesis
    by (metis add_0 nth_map)
qed

theorem C6_scrollY_is_requested_witness:
  "snd (captureLoop clamping_env ''s'' 4 3000 1000 1280 0 initial_world []) =
     Inr [\<lparr>blob = 0, scrollY = 0, c_viewportHeight = 1000, c_viewportWidth = 1280,
            isLastCapture = False\<rparr>,
          \<lparr>blob = 1, scrollY = 925, c_viewportHeight = 1000, c_viewportWidth = 1280,
            isLastCapture = False\<rparr>,
          \<lparr>blob = 2, scrollY = 1850, c_viewportHeight = 1000, c_viewportWidth = 1280,
            isLastCapture = False\<rparr>]
   \<and> scrollY (\<lparr>blob = 2 :: nat, scrollY = 1850, c_viewportHeight = 1000,
                 c_viewportWidth = 1280, isLastCapture = False\<rparr>) = 2 * (1000 - OVERLAP_HEIGHT)
   \<and> landedPositions (trace (fst (captureLoop clamping_env ''s'' 4 3000 1000 1280 0
                                     initial_world []))) = [0, 925, 1800]"
proof -
  let ?cs = "[\<lparr>blob = 0 :: nat, scrollY = 0, c_viewportHeight = 1000, c_viewportWidth = 1280,
            isLastCapture = False\<rparr>,
          \<lparr>blob = 1, scrollY = 925, c_viewportHeight = 1000, c_viewportWidth = 1280,
            isLastCapture = False\<rparr>,
          \<lparr>blob = 2, scrollY = 1850, c_viewportHeight = 1000, c_viewportWidth = 1280,
            isLastCapture = False\<rparr>]"
  have run: "snd (captureLoop clamping_env ''s'' 4 3000 1000 1280 0 initial_world []) = Inr ?cs"
    by (simp add: run_simps clamping_env_def)
  have len: "2 < length ?cs"
    by simp
  have landed: "landedPositions (trace (fst (captureLoop clamping_env ''s'' 4 3000 1000 1280 0
                                     initial_world []))) = [0, 925, 1800]"
    by (simp add: run_simps clamping_env_def)
  from C6_scrollY_is_requested [OF run len] have "scrollY (?cs ! 2) = int 2 * (1000 - OVERLAP_HEIGHT)" .
  then have "scrollY (\<lparr>blob = 2 :: nat, scrollY = 1850, c_viewportHeight = 1000,
                 c_viewportWidth = 1280, isLastCapture = False\<rparr>) = 2 * (1000 - OVERLAP_HEIGHT)"
    by (simp only: nth_Cons_numeral nth_Cons_0 nth_Cons_Suc numeral_2_eq_2 of_nat_numeral)
  with run landed show ?thesis
    by blast
qed

section \<open>Progress of a session\<close>

text \<open>Every write leaves the tracker equal to what was written.\<close>

lemma tracker_reflects_last_write:
  "currentCaptureState (updateCaptureState sid st msg p w)
     = Some \<lparr>sessionId = sid, status = st, message = msg, progress = p\<rparr>
   \<and> last (trace (updateCaptureState sid st msg p w))
     = EvNotify \<lparr>sessionId = sid, status = st, message = msg, progress = p\<rparr>"
  by simp

text \<open>
  Claim C7 says that the progress values written during one session never decrease. On a
  page 21350 high in a viewport 1000 high, where every collaborator succeeds, 23 frames
  are captured; the last one is announced with progress \<open>round(100 \<times> 22 / 23) = 96\<close>, and
  the stitching phase then writes 95: the sequence of progress values is not sorted.
\<close>

theorem C7_progress_decreases:
  "progressWrites (trace (startCapture (page_env 21350 1000) DEFAULT_CONFIG ''s'' initial_world))
     = [0, 4, 9, 13, 17, 22, 26, 30, 35, 39, 43, 48, 52, 57, 61, 65, 70, 74, 78,
        83, 87, 91, 96, 95, 100]
   \<and> \<not> sorted (progressWrites
         (trace (startCapture (page_env 21350 1000) DEFAULT_CONFIG ''s'' initial_world)))"
proof -
  have run: "progressWrites
       (trace (startCapture (page_env 21350 1000) DEFAULT_CONFIG ''s'' initial_world))
     = [0, 4, 9, 13, 17, 22, 26, 30, 35, 39, 43, 48, 52, 57, 61, 65, 70, 74, 78,
        83, 87, 91, 96, 95, 100]"
    by (simp add: run_simps)
  show ?thesis
    unfolding run by simp
qed

section \<open>The end of a session\<close>

text \<open>No step of a capture touches the pending timers; only the last step of a successful
  session adds one.\<close>

lemma captureRetry_timers:
  "captureRetry env r w = (w', res) \<Longrightarrow> timers w' = timers w"
proof (induction r arbitrary: w)
  case 0
  then show ?case by auto
next
  case (Suc r)
  then show ?case
    by (auto simp add: Let_def split: reply.splits if_splits)
qed

lemma captureStep_timers:
  "captureStep env sid n sh vh vw i w cs = (w', res) \<Longrightarrow> timers w' = timers w"
  by (auto simp add: captureStep_def Let_def dest!: captureRetry_timers
      split: reply.splits if_splits prod.splits sum.splits option.splits)

lemma captureLoop_timers:
  "captureLoop env sid n sh vh vw i w cs = (w', res) \<Longrightarrow> timers w' = timers w"
proof (induction env sid n sh vh vw i w cs rule: captureLoop.induct)
  case (1 env sid n sh vh vw i w cs)
  show ?case
  proof (cases "i < n \<and> i * (vh - OVERLAP_HEIGHT) \<le> sh - vh")
    case False
    with "1.prems" show ?thesis
      by (subst (asm) captureLoop.simps) (auto split: if_splits)
  next
    case True
    obtain w1 r1 where st: "captureStep env sid n sh vh vw i w cs = (w1, r1)"
      by (cases "captureStep env sid n sh vh vw i w cs")
    then have t1: "timers w1 = timers w"
      by (rule captureStep_timers)
    show ?thesis
    proof (cases r1)
      case (Inl e)
      with True st "1.prems" t1 show ?thesis
        by (subst (asm) captureLoop.simps) auto
    next
      case (Inr cs1)
      with True st "1.prems"
      have "captureLoop env sid n sh vh vw (i + 1) w1 cs1 = (w', res)"
        by (subst (asm) captureLoop.simps) simp
      with True st Inr have "timers w' = timers w1"
        using "1.IH" [of w1 r1 cs1] by simp
      with t1 show ?thesis by simp
    qed
  qed
qed

lemma stitchAndRestore_timers:
  "stitchAndRestore env captures y w = (w', res) \<Longrightarrow> timers w' = timers w"
  by (auto simp add: stitchAndRestore_def createOffscreenDocument_def
      split: reply.splits if_splits prod.splits sum.splits option.splits)

lemma scrollAndStitchCapture_timers:
  "scrollAndStitchCapture env sid w = (w', res) \<Longrightarrow> timers w' = timers w"
  by (auto simp add: scrollAndStitchCapture_def ensureContentScript_def Let_def
      dest!: captureLoop_timers stitchAndRestore_timers
      split: reply.splits if_splits prod.splits sum.splits)

lemma startCaptureTry_timers:
  "startCaptureTry env cfg sid w = (w', res)
     \<Longrightarrow> timers w' = (case res of Inl _ \<Rightarrow> timers w | Inr _ \<Rightarrow> timers w @ [(5000, sid)])"
  by (auto simp add: startCaptureTry_def Let_def dest!: scrollAndStitchCapture_timers
      split: reply.splits if_splits prod.splits sum.splits list.splits option.splits)

text \<open>A session that fails, for whatever reason, ends with its error state written and
  without a timer that would clear it.\<close>

lemma failed_session_keeps_state:
  assumes "snd (startCaptureTry env cfg sid w) = Inl e"
  shows "timers (startCapture env cfg sid w) = timers w
       \<and> currentCaptureState (startCapture env cfg sid w)
           = Some \<lparr>sessionId = sid, status = ''error'', message = MsgFailed e, progress = None\<rparr>"
proof -
  obtain w1 where r: "startCaptureTry env cfg sid w = (w1, Inl e)"
    using assms by (cases "startCaptureTry env cfg sid w") auto
  from startCaptureTry_timers [OF r] have "timers w1 = timers w" by simp
  with r show ?thesis
    by (simp add: startCapture_def Let_def)
qed

text \<open>
  Claim C8 says that the capture state of a session that ended, in \<open>completed\<close> or in
  \<open>error\<close>, is cleared after a fixed delay. A capture of a browser-internal page ends in
  \<open>error\<close>: the \<open>catch\<close> block writes the error state, no timer is pending afterwards,
  and the state is still there when every pending timer has fired. A capture that completes leaves the
  timer of 5000 ms behind, and the state is gone once it has fired.
\<close>

theorem C8_error_state_not_cleared:
  "currentCaptureState (startCapture internal_env DEFAULT_CONFIG ''s'' initial_world)
     = Some \<lparr>sessionId = ''s'', status = ''error'',
              message = MsgFailed UrlNotCapturable, progress = None\<rparr>
   \<and> timers (startCapture internal_env DEFAULT_CONFIG ''s'' initial_world) = []
   \<and> currentCaptureState
       (fireTimers (startCapture internal_env DEFAULT_CONFIG ''s'' initial_world))
     = currentCaptureState (startCapture internal_env DEFAULT_CONFIG ''s'' initial_world)
   \<and> timers (startCapture (page_env 3000 1000) DEFAULT_CONFIG ''s'' initial_world)
     = [(5000, ''s'')]
   \<and> currentCaptureState
       (fireTimers (startCapture (page_env 3000 1000) DEFAULT_CONFIG ''s'' initial_world))
     = None"
  by (simp add: run_simps internal_env_def fireTimers_def clearCaptureState_def)

section \<open>The stitched canvas\<close>

lemma foldl_heights:
  "foldl (\<lambda>t img. t + (img_height img - ov)) a xs = a + (\<Sum>img\<leftarrow>xs. img_height img - ov)"
  by (induction xs arbitrary: a) simp_all

lemma drawImage_size [simp]:
  "c_width (drawImage i img sx sy w h dx dy ctx) = c_width ctx"
  "c_height (drawImage i img sx sy w h dx dy ctx) = c_height ctx"
  by (simp_all add: drawImage_def)

lemma drawLoop_size:
  "c_width (snd (drawLoop imgs i cw ov y ctx)) = c_width ctx \<and>
   c_height (snd (drawLoop imgs i cw ov y ctx)) = c_height ctx"
  by (induction imgs arbitrary: i y ctx) (simp_all add: Let_def)

lemma sanitize_int:
  "sanitizeCanvasDimension (Num (real_of_int t)) 600 = (if t < 1 then 600 else min t 32767)"
  by (simp add: sanitizeCanvasDimension_def Let_def)

text \<open>
  Claim C3. For every non-empty list of frames the stitcher returns a canvas, and the
  height of that canvas is the height of the first frame plus, for every later frame, its
  height less the overlap, cut to 32767 from above; a total below 1 gives the default 600,
  so the height always lies between 1 and 32767. A requested height of 40000 gives 32767;
  \<open>NaN\<close>, the infinities and every value that is at most 0 give the default (600 for the
  height, 800 for the width) instead of a failure.
\<close>

theorem C3_canvas_height:
  "\<exists>y ctx. stitchCapturedViewports (first # rest) ov = Inr (y, ctx)
     \<and> (let total = img_height first + (\<Sum>img\<leftarrow>rest. img_height img - ov)
        in c_height ctx = (if total < 1 then 600 else min total 32767))
     \<and> 1 \<le> c_height ctx \<and> c_height ctx \<le> 32767
     \<and> sanitizeCanvasDimension (Num 40000) 600 = 32767
     \<and> sanitizeCanvasDimension NaN 600 = 600
     \<and> sanitizeCanvasDimension PosInfinity 600 = 600
     \<and> sanitizeCanvasDimension NegInfinity 600 = 600
     \<and> (x \<le> 0 \<longrightarrow> sanitizeCanvasDimension (Num x) 600 = 600
                  \<and> sanitizeCanvasDimension (Num x) 800 = 800)"
proof -
  let ?total = "img_height first + (\<Sum>img\<leftarrow>rest. img_height img - ov)"
  let ?ctx0 = "OffscreenCanvas (sanitizeCanvasDimension (Num (real_of_int (img_width first))) 800)
                 (sanitizeCanvasDimension (Num (real_of_int ?total)) 600) :: 'a canvas"
  let ?r = "drawLoop (first # rest) 0 (img_width first) ov 0 ?ctx0"
  have run: "stitchCapturedViewports (first # rest) ov = Inr (fst ?r, snd ?r)"
    by (simp add: stitchCapturedViewports_def totalHeight_def foldl_heights Let_def
        del: drawLoop.simps)
  have "c_height (snd ?r) = c_height ?ctx0"
    by (rule drawLoop_size [THEN conjunct2])
  also have "\<dots> = sanitizeCanvasDimension (Num (real_of_int ?total)) 600"
    by (simp add: OffscreenCanvas_def)
  also have "\<dots> = (if ?total < 1 then 600 else min ?total 32767)"
    by (rule sanitize_int)
  finally have h: "c_height (snd ?r) = (if ?total < 1 then 600 else min ?total 32767)" .
  have range: "1 \<le> c_height (snd ?r) \<and> c_height (snd ?r) \<le> 32767"
    unfolding h by simp
  have fl: "x \<le> 0 \<Longrightarrow> \<lfloor>x\<rfloor> < 1"
    by linarith
  have fixed: "sanitizeCanvasDimension (Num 40000) 600 = 32767
     \<and> sanitizeCanvasDimension NaN 600 = 600
     \<and> sanitizeCanvasDimension PosInfinity 600 = 600
     \<and> sanitizeCanvasDimension NegInfinity 600 = 600
     \<and> (x \<le> 0 \<longrightarrow> sanitizeCanvasDimension (Num x) 600 = 600
                  \<and> sanitizeCanvasDimension (Num x) 800 = 800)"
    using fl by (simp add: sanitizeCanvasDimension_def Let_def)
  from run h range fixed show ?thesis
    by (metis (no_types, lifting))
qed

theorem C3_canvas_height_witness:
  "\<exists>y ctx. stitchCapturedViewports [frame 0 800 1000, frame 1 800 1000, frame 2 800 1000] 75
              = Inr (y, ctx)
     \<and> c_height ctx = 2850
     \<and> (- 5 :: real) \<le> 0 \<and> sanitizeCanvasDimension (Num (- 5)) 600 = 600"
  using C3_canvas_height [of "frame 0 800 1000" "[frame 1 800 1000, frame 2 800 1000]" 75 "- 5"]
  by (auto simp add: frame_def Let_def)

text \<open>
  Claim C9. Stitching a single frame whose width and height lie between 1 and 32767
  gives a canvas of the frame's size on which exactly one draw call was made, opaque,
  of the whole frame at the origin; every pixel of the canvas is the frame's pixel at
  that place, and nothing is blended.
\<close>

theorem C9_single_frame:
  assumes "1 \<le> img_width f" and "img_width f \<le> 32767"
    and "1 \<le> img_height f" and "img_height f \<le> 32767"
  shows "\<exists>ctx. stitchCapturedViewports [f] ov = Inr (img_height f, ctx)
     \<and> c_width ctx = img_width f \<and> c_height ctx = img_height f
     \<and> calls ctx = [\<lparr>dc_image = 0, dc_alpha = 1, dc_sx = 0, dc_sy = 0,
                      dc_w = img_width f, dc_h = img_height f, dc_dx = 0, dc_dy = 0\<rparr>]
     \<and> (\<forall>x y. bitmap ctx x y =
            (if 0 \<le> x \<and> x < img_width f \<and> 0 \<le> y \<and> y < img_height f
             then [(1, pixel f x y)] else []))"
  using assms
  by (auto simp add: stitchCapturedViewports_def totalHeight_def sanitizeCanvasDimension_def
      Let_def OffscreenCanvas_def drawImage_def paint_def in_span_def)

theorem C9_single_frame_witness:
  "1 \<le> img_width (frame 0 2 3) \<and> img_width (frame 0 2 3) \<le> 32767
     \<and> 1 \<le> img_height (frame 0 2 3) \<and> img_height (frame 0 2 3) \<le> 32767
     \<and> (\<exists>ctx. stitchCapturedViewports [frame 0 2 3] 75 = Inr (3, ctx)
            \<and> c_width ctx = 2 \<and> c_height ctx = 3
            \<and> bitmap ctx 1 2 = [(1, (0, 1, 2))] \<and> bitmap ctx 2 0 = [])"
proof -
  have a: "1 \<le> img_width (frame 0 2 3)" and b: "img_width (frame 0 2 3) \<le> 32767"
    and c: "1 \<le> img_height (frame 0 2 3)" and d: "img_height (frame 0 2 3) \<le> 32767"
    by (simp_all add: frame_def)
  from C9_single_frame [OF a b c d, of 75] obtain ctx where
    r: "stitchCapturedViewports [frame 0 2 3] 75 = Inr (img_height (frame 0 2 3), ctx)"
    and sz: "c_width ctx = img_width (frame 0 2 3)" "c_height ctx = img_height (frame 0 2 3)"
    and px: "\<forall>x y. bitmap ctx x y =
            (if 0 \<le> x \<and> x < img_width (frame 0 2 3) \<and> 0 \<le> y \<and> y < img_height (frame 0 2 3)
             then [(1, pixel (frame 0 2 3) x y)] else [])"
    by blast
  have p1: "bitmap ctx 1 2 = [(1, (0, 1, 2))]" and p2: "bitmap ctx 2 0 = []"
    using px by (simp_all add: frame_def)
  from r sz have "stitchCapturedViewports [frame 0 2 3] 75 = Inr (3, ctx)
      \<and> c_width ctx = 2 \<and> c_height ctx = 3"
    by (simp add: frame_def)
  with a b c d p1 p2 show ?thesis
    by blast
qed

section \<open>The seam between two frames\<close>

text \<open>The draw calls for any two frames: the half-opaque call and the opaque call for
  the second frame both start at its row \<open>overlapHeight\<close>, the first is placed at the
  height of the first frame, and the second is \<open>overlapHeight\<close> lower and
  \<open>2 \<times> overlapHeight\<close> shorter than the frame.\<close>

lemma second_frame_draw_calls:
  "calls (snd (drawLoop [a, b] 0 cw ov 0 ctx)) = calls ctx @
     [\<lparr>dc_image = 0, dc_alpha = globalAlpha ctx, dc_sx = 0, dc_sy = 0, dc_w = cw,
        dc_h = img_height a, dc_dx = 0, dc_dy = 0\<rparr>,
      \<lparr>dc_image = 1, dc_alpha = 1 / 2, dc_sx = 0, dc_sy = ov, dc_w = cw, dc_h = ov,
        dc_dx = 0, dc_dy = img_height a\<rparr>,
      \<lparr>dc_image = 1, dc_alpha = 1, dc_sx = 0, dc_sy = ov, dc_w = cw,
        dc_h = img_height b - ov - ov, dc_dx = 0, dc_dy = img_height a + ov\<rparr>]
   \<and> fst (drawLoop [a, b] 0 cw ov 0 ctx) = img_height a + (img_height b - ov)"
  by (simp add: drawImage_def Let_def)

text \<open>
  Claim C2 says that a later frame's first \<open>overlapHeight\<close> rows are blended at half
  opacity over the last \<open>overlapHeight\<close> rows of the frame before it, and that its
  remaining rows, from \<open>overlapHeight\<close> to its end, are drawn opaquely right below. For
  two frames 800 wide and 1000 high and an overlap of 75 the stitcher makes three draw
  calls. The half-opaque call takes the rows from 75 to 149 of the second frame, not its
  first 75, and puts them at row 1000 of the canvas, below the first frame, whose rows
  from 925 to 999 stay as they were drawn. The opaque call takes the rows from 75 to 924
  only and puts them at row 1075. So the canvas row 1000 shows row 75 of the second frame
  at half opacity over nothing, the row 1075 shows the same source row again, and the rows
  of the second frame from 925 on are not drawn. \<open>currentY\<close> ends at 1925.
\<close>

theorem C2_seam_draw_calls:
  "\<exists>ctx. stitchCapturedViewports [frame 0 800 1000, frame 1 800 1000] 75 = Inr (1925, ctx)
     \<and> calls ctx =
         [\<lparr>dc_image = 0, dc_alpha = 1, dc_sx = 0, dc_sy = 0, dc_w = 800, dc_h = 1000,
           dc_dx = 0, dc_dy = 0\<rparr>,
          \<lparr>dc_image = 1, dc_alpha = 1 / 2, dc_sx = 0, dc_sy = 75, dc_w = 800, dc_h = 75,
           dc_dx = 0, dc_dy = 1000\<rparr>,
          \<lparr>dc_image = 1, dc_alpha = 1, dc_sx = 0, dc_sy = 75, dc_w = 800, dc_h = 850,
           dc_dx = 0, dc_dy = 1075\<rparr>]
     \<and> bitmap ctx 0 925 = [(1, (0, 0, 925))]
     \<and> bitmap ctx 0 999 = [(1, (0, 0, 999))]
     \<and> bitmap ctx 0 1000 = [(1 / 2, (1, 0, 75))]
     \<and> bitmap ctx 0 1074 = [(1 / 2, (1, 0, 149))]
     \<and> bitmap ctx 0 1075 = [(1, (1, 0, 75))]
     \<and> bitmap ctx 0 1924 = [(1, (1, 0, 924))]"
  by (simp add: stitchCapturedViewports_def totalHeight_def sanitizeCanvasDimension_def
      Let_def OffscreenCanvas_def drawImage_def paint_def in_span_def frame_def)

section \<open>The keyboard shortcut\<close>

text \<open>The guard of the listener: with a capture state that is neither \<open>completed\<close> nor
  \<open>error\<close> the command changes nothing.\<close>

lemma hotkey_guard:
  "currentCaptureState w = Some s \<Longrightarrow> status s \<noteq> ''completed'' \<Longrightarrow> status s \<noteq> ''error''
     \<Longrightarrow> onCommand env cfg sid ''capture-page'' w = w"
  by (simp add: onCommand_def captureInProgress_def)

lemma hotkeyStep_guard:
  "captureInProgress (hk_world st) \<Longrightarrow> hotkeyStep env (Command c) st = st"
  by simp

text \<open>The pieces put together again are the functions of the source.\<close>

lemma scrollAndStitchCapture_split:
  "scrollAndStitchCapture env sid w =
     collectAndStitch env sid
       (updateCaptureState sid ''preparing'' (Msg ''Preparing page...'') None w)"
  unfolding scrollAndStitchCapture_def collectAndStitch_def Let_def
  by (rule refl)

lemma startCaptureTry_split:
  "startCaptureTry env cfg sid w =
     (case sessionOpen env cfg sid w of
        (w1, Inl e) \<Rightarrow> (w1, Inl e)
      | (w1, Inr u) \<Rightarrow> sessionRest env cfg sid w1)"
  by (simp add: startCaptureTry_def sessionOpen_def sessionRest_def
      scrollAndStitchCapture_split Let_def
      split: reply.splits list.splits option.splits)

lemma startCapture_settle:
  "startCapture env cfg sid w = settle sid (startCaptureTry env cfg sid w)"
  by (simp add: startCapture_def settle_def split: prod.splits sum.splits)

text \<open>A command with nothing arriving in between is the listener of the source followed
  by the whole of \<open>startCapture\<close>.\<close>

lemma undisturbed_command:
  "hotkeyRun env [Command ''capture-page'', ConfigRead cfg sid, TabResolved sid, Resumed sid]
       \<lparr>hk_world = w, pendingReads = 0, awaitingTab = [], opened = []\<rparr>
     = \<lparr>hk_world = onCommand env cfg sid ''capture-page'' w, pendingReads = 0,
        awaitingTab = [], opened = []\<rparr>"
proof (cases "captureInProgress w")
  case True
  then show ?thesis
    by (simp add: hotkeyRun_def onCommand_def)
next
  case False
  obtain w1 r1 where o: "sessionOpen env cfg sid w = (w1, r1)"
    by (cases "sessionOpen env cfg sid w")
  show ?thesis
  proof (cases r1)
    case (Inl e)
    with False o show ?thesis
      by (simp add: hotkeyRun_def onCommand_def startCapture_settle startCaptureTry_split)
  next
    case (Inr u)
    with False o show ?thesis
      by (simp add: hotkeyRun_def onCommand_def startCapture_settle startCaptureTry_split)
  qed
qed

text \<open>An opened session has written a state that the guard takes for a capture in
  progress.\<close>

lemma opened_session_in_progress:
  "sessionOpen env cfg sid w = (w1, Inr u) \<Longrightarrow> captureInProgress w1"
  by (auto simp add: sessionOpen_def captureInProgress_def Let_def
      split: reply.splits list.splits option.splits if_splits)

text \<open>
  Claim C10 says that a capture command is ignored while a capture state that is neither
  \<open>completed\<close> nor \<open>error\<close> exists, so that the shortcut never runs two sessions at the
  same time. The guard reads a state that a session writes only after its storage read
  and its tab query have been answered. When the shortcut is pressed twice on an idle
  worker and the second command arrives before the tab query of the first session is
  answered, both commands pass the guard: after both tab queries are answered the two
  sessions are open and registered in \<open>activeSessions\<close> together, and when both have
  gone on, six frames have been grabbed, three by each session. A second command that
  arrives after the first session has opened is ignored.
\<close>

theorem C10_two_sessions_by_hotkey:
  "opened (hotkeyRun (page_env 3000 1000)
       [Command ''capture-page'', ConfigRead DEFAULT_CONFIG ''s1'',
        Command ''capture-page'', ConfigRead DEFAULT_CONFIG ''s2'',
        TabResolved ''s1'', TabResolved ''s2''] idle)
     = [(''s1'', DEFAULT_CONFIG), (''s2'', DEFAULT_CONFIG)]
   \<and> activeSessions (hk_world (hotkeyRun (page_env 3000 1000)
       [Command ''capture-page'', ConfigRead DEFAULT_CONFIG ''s1'',
        Command ''capture-page'', ConfigRead DEFAULT_CONFIG ''s2'',
        TabResolved ''s1'', TabResolved ''s2''] idle)) ''s1'' = Some 7
   \<and> activeSessions (hk_world (hotkeyRun (page_env 3000 1000)
       [Command ''capture-page'', ConfigRead DEFAULT_CONFIG ''s1'',
        Command ''capture-page'', ConfigRead DEFAULT_CONFIG ''s2'',
        TabResolved ''s1'', TabResolved ''s2''] idle)) ''s2'' = Some 7
   \<and> captureCalls (hk_world (hotkeyRun (page_env 3000 1000)
       [Command ''capture-page'', ConfigRead DEFAULT_CONFIG ''s1'',
        Command ''capture-page'', ConfigRead DEFAULT_CONFIG ''s2'',
        TabResolved ''s1'', TabResolved ''s2'', Resumed ''s1'', Resumed ''s2''] idle)) = 6
   \<and> pendingReads (hotkeyRun (page_env 3000 1000)
       [Command ''capture-page'', ConfigRead DEFAULT_CONFIG ''s1'', TabResolved ''s1'',
        Command ''capture-page''] idle) = 0"
  by (simp add: hotkeyRun_def idle_def sessionOpen_def sessionRest_def settle_def
      collectAndStitch_def captureInProgress_def run_simps)

end
